theory Spec2Isabelle
  imports Main "HOL-Library.AList"
begin

section \<open>The welcome screen of a guild: discord/welcome_screen.py\<close>

text \<open>
  The module holds two classes. \<open>WelcomeChannel\<close> is one row of the welcome screen and
  converts itself from and to the wire dictionary; \<open>WelcomeScreen\<close> is the whole panel of
  one guild, hydrated from a payload by \<open>_store\<close> and changed on the server by \<open>edit\<close>.
  Names that start with an underscore in the source lose it here
  (\<open>_from_dict\<close> is \<open>from_dict\<close>, \<open>_store\<close> is \<open>store\<close>, \<open>_guild\<close> is \<open>guild\<close>).
\<close>

subsection \<open>Exceptions\<close>

text \<open>
  The exceptions the module raises itself (\<open>InvalidArgument\<close>), the ones Python raises
  for it (\<open>KeyError\<close> on a missing key, \<open>TypeError\<close> on iterating a value that is not
  iterable, \<open>AttributeError\<close> on reading \<open>.id\<close> of \<open>None\<close>) and the three the
  docstring of \<open>edit\<close> lists for the HTTP request.
\<close>

datatype error =
    KeyError
  | TypeError
  | AttributeError
  | InvalidArgument
  | Forbidden
  | NotFound
  | HTTPException

subsection \<open>Wire payloads\<close>

text \<open>
  A payload is a dictionary with a fixed set of keys. A key can be missing, can carry
  \<open>None\<close> (JSON null), or can carry a value; the source tells the three apart
  (\<open>data['k']\<close> raises on a missing key and returns \<open>None\<close> on null), so the model does.
\<close>

datatype 'a field = Missing | Null | Val 'a

record WelcomeScreenChannelPayload =
  channel_id :: "int field"
  description :: "string field"
  emoji_id :: "int field"
  emoji_name :: "string field"

record WelcomeScreenPayload =
  description :: "string field"
  welcome_channels :: "WelcomeScreenChannelPayload list field"

text \<open>\<open>data[key]\<close>: \<open>KeyError\<close> when the key is missing, \<open>None\<close> when it is null.\<close>

fun subscript :: "'a field \<Rightarrow> error + 'a option" where
  "subscript Missing = Inl KeyError"
| "subscript Null = Inr None"
| "subscript (Val v) = Inr (Some v)"

text \<open>
  Modelled from the spec: \<open>utils._get_as_snowflake(data, key)\<close> is not part of the
  module. The spec has \<open>_from_dict\<close> extract an identifier that is an integer id or
  absent: the helper gives the integer stored under the key, and \<open>None\<close> when the
  key is missing or null.
\<close>

fun get_as_snowflake :: "int field \<Rightarrow> int option" where
  "get_as_snowflake Missing = None"
| "get_as_snowflake Null = None"
| "get_as_snowflake (Val v) = Some v"

text \<open>The truth value Python gives an \<open>Optional[int]\<close> in \<open>if x:\<close>: false on \<open>None\<close> and on \<open>0\<close>.\<close>

fun truthy :: "int option \<Rightarrow> bool" where
  "truthy None = False"
| "truthy (Some i) = (i \<noteq> 0)"

subsection \<open>The guild context\<close>

text \<open>
  Modelled from the spec: the guild class is not part of the module. The spec lists what
  the module consumes of it: \<open>getChannel(id)\<close> giving a channel or absent, \<open>emojis\<close>
  (a collection looked up by id), \<open>features\<close> (a set of string flags) and \<open>id\<close>.
  Of a channel only its \<open>id\<close> is read (\<open>abc.Snowflake\<close>); of a custom emoji its
  \<open>id\<close> and \<open>name\<close>.
\<close>

record Snowflake =
  id :: int

record Emoji =
  id :: int
  name :: string

record Guild =
  id :: int
  channels :: "Snowflake list"
  emojis :: "Emoji list"
  features :: "string set"

text \<open>
  Modelled from the spec: \<open>guild.get_channel(channel_id)\<close>, a lookup by id that gives
  \<open>None\<close> when nothing is found (also for the id \<open>None\<close>).
\<close>

fun get_channel :: "Guild \<Rightarrow> int option \<Rightarrow> Snowflake option" where
  "get_channel g None = None"
| "get_channel g (Some i) = find (\<lambda>c. Snowflake.id c = i) (channels g)"

text \<open>
  Modelled from the spec: \<open>utils.get(guild.emojis, id=i)\<close>, the first emoji of the
  collection whose id is \<open>i\<close>, or \<open>None\<close>.
\<close>

definition get :: "Emoji list \<Rightarrow> int \<Rightarrow> Emoji option" where
  "get es i = find (\<lambda>e. Emoji.id e = i) es"

subsection \<open>WelcomeChannel\<close>

text \<open>
  The \<open>emoji\<close> attribute is \<open>None\<close>, a \<open>str\<close>, or an instance of \<open>_EmojiTag\<close>
  (a custom emoji). \<open>channel\<close> is what \<open>guild.get_channel\<close> returned, so it can be
  \<open>None\<close>; \<open>description\<close> is what \<open>data['description']\<close> returned.
\<close>

datatype emoji_value = EmojiNone | EmojiStr string | EmojiTag Emoji

record WelcomeChannel =
  channel :: "Snowflake option"
  description :: "string option"
  emoji :: emoji_value

text \<open>The two branches of \<open>if _emoji_id:\<close> in \<open>_from_dict\<close>.\<close>

definition resolve_emoji :: "Guild \<Rightarrow> int option \<Rightarrow> string option \<Rightarrow> emoji_value" where
  "resolve_emoji g eid ename =
     (if truthy eid then
        (case eid of
           None \<Rightarrow> EmojiNone
         | Some i \<Rightarrow> (case get (emojis g) i of None \<Rightarrow> EmojiNone | Some e \<Rightarrow> EmojiTag e))
      else
        (case ename of None \<Rightarrow> EmojiNone | Some s \<Rightarrow> EmojiStr s))"

definition from_dict :: "WelcomeScreenChannelPayload \<Rightarrow> Guild \<Rightarrow> error + WelcomeChannel" where
  "from_dict data g =
     (let cid = get_as_snowflake (channel_id data);
          ch = get_channel g cid
      in case subscript (WelcomeScreenChannelPayload.description data) of
           Inl e \<Rightarrow> Inl e
         | Inr descr \<Rightarrow>
             (let eid = get_as_snowflake (emoji_id data)
              in case subscript (emoji_name data) of
                   Inl e \<Rightarrow> Inl e
                 | Inr ename \<Rightarrow>
                     Inr \<lparr>channel = ch, WelcomeChannel.description = descr,
                          emoji = resolve_emoji g eid ename\<rparr>))"

text \<open>A Python value that is \<open>None\<close> or present, written into a dictionary.\<close>

fun as_field :: "'a option \<Rightarrow> 'a field" where
  "as_field None = Null"
| "as_field (Some v) = Val v"

text \<open>
  \<open>to_dict\<close> reads \<open>self.channel.id\<close> first, which raises \<open>AttributeError\<close> when the
  channel is \<open>None\<close>, then fills the emoji keys by \<open>isinstance(self.emoji, _EmojiTag)\<close>.
\<close>

definition to_dict :: "WelcomeChannel \<Rightarrow> error + WelcomeScreenChannelPayload" where
  "to_dict self =
     (case channel self of
        None \<Rightarrow> Inl AttributeError
      | Some c \<Rightarrow>
          (let ret = \<lparr>channel_id = Val (Snowflake.id c),
                      WelcomeScreenChannelPayload.description = as_field (WelcomeChannel.description self),
                      emoji_id = Null, emoji_name = Null\<rparr>
           in Inr (case emoji self of
                     EmojiTag e \<Rightarrow> ret\<lparr>emoji_id := Val (Emoji.id e), emoji_name := Val (Emoji.name e)\<rparr>
                   | EmojiStr s \<Rightarrow> ret\<lparr>emoji_name := Val s\<rparr>
                   | EmojiNone \<Rightarrow> ret\<lparr>emoji_name := Null\<rparr>)))"

text \<open>Hydrating a payload and serialising the entry again.\<close>

definition round_trip :: "WelcomeScreenChannelPayload \<Rightarrow> Guild \<Rightarrow> error + WelcomeScreenChannelPayload" where
  "round_trip p g = (case from_dict p g of Inl e \<Rightarrow> Inl e | Inr wc \<Rightarrow> to_dict wc)"

subsection \<open>WelcomeScreen\<close>

text \<open>
  The screen keeps a reference to its guild, not a copy: \<open>guild\<close> is an address in the
  store of guild objects, read again at every use.
\<close>

type_synonym guild_store = "nat \<Rightarrow> Guild"

record WelcomeScreen =
  guild :: nat
  description :: "string option"
  welcome_channels :: "WelcomeChannel list"

text \<open>The list comprehension of \<open>_store\<close>: the first element that raises ends it.\<close>

fun from_dict_all :: "Guild \<Rightarrow> WelcomeScreenChannelPayload list \<Rightarrow> error + WelcomeChannel list" where
  "from_dict_all g [] = Inr []"
| "from_dict_all g (wc # rest) =
     (case from_dict wc g of
        Inl e \<Rightarrow> Inl e
      | Inr c \<Rightarrow> (case from_dict_all g rest of Inl e \<Rightarrow> Inl e | Inr cs \<Rightarrow> Inr (c # cs)))"

text \<open>
  \<open>data.get('welcome_channels', [])\<close> followed by the iteration: the default applies to
  a missing key only; a key that is present with \<open>None\<close> gives \<open>None\<close>, and iterating
  it raises \<open>TypeError\<close>.
\<close>

fun get_welcome_channels :: "WelcomeScreenChannelPayload list field \<Rightarrow> error + WelcomeScreenChannelPayload list" where
  "get_welcome_channels Missing = Inr []"
| "get_welcome_channels Null = Inl TypeError"
| "get_welcome_channels (Val wcs) = Inr wcs"

text \<open>
  \<open>_store\<close> assigns \<open>self.description\<close> before it builds the list, so an exception
  raised while the list is built leaves the new description in place. The result is the
  exception raised, if any, and the object as it is afterwards.
\<close>

definition store :: "guild_store \<Rightarrow> WelcomeScreen \<Rightarrow> WelcomeScreenPayload \<Rightarrow> error option \<times> WelcomeScreen" where
  "store guilds self data =
     (case subscript (WelcomeScreenPayload.description data) of
        Inl e \<Rightarrow> (Some e, self)
      | Inr descr \<Rightarrow>
          (let self1 = self\<lparr>WelcomeScreen.description := descr\<rparr>
           in case get_welcome_channels (WelcomeScreenPayload.welcome_channels data) of
                Inl e \<Rightarrow> (Some e, self1)
              | Inr wcs \<Rightarrow>
                  (case from_dict_all (guilds (guild self1)) wcs of
                     Inl e \<Rightarrow> (Some e, self1)
                   | Inr cs \<Rightarrow> (None, self1\<lparr>WelcomeScreen.welcome_channels := cs\<rparr>))))"

definition enabled :: "guild_store \<Rightarrow> WelcomeScreen \<Rightarrow> bool" where
  "enabled guilds self = (''WELCOME_SCREEN_ENABLED'' \<in> features (guilds (guild self)))"

subsection \<open>edit\<close>

text \<open>
  \<open>edit\<close> takes \<open>**kwargs\<close>: a dictionary from keyword to any Python object, kept in
  insertion order. The objects that matter here are \<open>None\<close>, booleans, integers, strings,
  \<open>WelcomeChannel\<close> instances, the dictionaries \<open>to_dict\<close> returns, and lists.
\<close>

datatype pyobj =
    PyNone
  | PyBool bool
  | PyInt int
  | PyStr string
  | PyWelcomeChannel WelcomeChannel
  | PyDict WelcomeScreenChannelPayload
  | PyList "pyobj list"

type_synonym kwargs = "(string \<times> pyobj) list"

text \<open>The keys a payload dictionary holds, in the order \<open>to_dict\<close> inserts them.\<close>

definition keys :: "WelcomeScreenChannelPayload \<Rightarrow> string list" where
  "keys d =
     (if channel_id d = Missing then [] else [''channel_id'']) @
     (if WelcomeScreenChannelPayload.description d = Missing then [] else [''description'']) @
     (if emoji_id d = Missing then [] else [''emoji_id'']) @
     (if emoji_name d = Missing then [] else [''emoji_name''])"

text \<open>
  \<open>for wc in welcome_channels\<close>: a list gives its elements, a string its characters,
  a dictionary its keys; anything else is not iterable.
\<close>

fun iterate :: "pyobj \<Rightarrow> error + pyobj list" where
  "iterate (PyList xs) = Inr xs"
| "iterate (PyStr s) = Inr (map (\<lambda>c. PyStr [c]) s)"
| "iterate (PyDict d) = Inr (map PyStr (keys d))"
| "iterate PyNone = Inl TypeError"
| "iterate (PyBool b) = Inl TypeError"
| "iterate (PyInt i) = Inl TypeError"
| "iterate (PyWelcomeChannel c) = Inl TypeError"

text \<open>\<open>isinstance(wc, WelcomeChannel)\<close>.\<close>

fun is_WelcomeChannel :: "pyobj \<Rightarrow> bool" where
  "is_WelcomeChannel (PyWelcomeChannel c) = True"
| "is_WelcomeChannel x = False"

text \<open>
  The body of the \<open>for\<close> loop, with \<open>welcome_channels_serialised\<close> as the accumulator:
  each element is checked and serialised in turn.
\<close>

fun serialise :: "pyobj list \<Rightarrow> pyobj list \<Rightarrow> error + pyobj list" where
  "serialise [] acc = Inr acc"
| "serialise (PyWelcomeChannel c # rest) acc =
     (case to_dict c of
        Inl e \<Rightarrow> Inl e
      | Inr d \<Rightarrow> serialise rest (acc @ [PyDict d]))"
| "serialise (x # rest) acc = Inl InvalidArgument"

text \<open>
  The \<open>try\<close>/\<open>except KeyError\<close>/\<open>else\<close> block: without the key the dictionary is left
  as it is, with it the value is replaced by the serialised list.
\<close>

definition prepare :: "kwargs \<Rightarrow> error + kwargs" where
  "prepare kw =
     (case map_of kw ''welcome_channels'' of
        None \<Rightarrow> Inr kw
      | Some wcs \<Rightarrow>
          (case iterate wcs of
             Inl e \<Rightarrow> Inl e
           | Inr xs \<Rightarrow>
               (case serialise xs [] of
                  Inl e \<Rightarrow> Inl e
                | Inr ser \<Rightarrow> Inr (AList.update ''welcome_channels'' (PyList ser) kw))))"

text \<open>
  The transport is a parameter: \<open>http gid kw\<close> is what
  \<open>self._state.http.edit_welcome_screen(gid, kw)\<close> does, raising or returning the
  response payload. The result of \<open>edit\<close> is the exception it raised, if any, the object
  as it is afterwards, and the requests it sent.
\<close>

type_synonym transport = "int \<Rightarrow> kwargs \<Rightarrow> error + WelcomeScreenPayload"

type_synonym edit_result = "error option \<times> WelcomeScreen \<times> (int \<times> kwargs) list"

definition edit :: "transport \<Rightarrow> guild_store \<Rightarrow> WelcomeScreen \<Rightarrow> kwargs \<Rightarrow> edit_result" where
  "edit http guilds self kw =
     (case prepare kw of
        Inl e \<Rightarrow> (Some e, self, [])
      | Inr kw' \<Rightarrow>
          (if kw' \<noteq> [] then
             (let gid = Guild.id (guilds (guild self))
              in case http gid kw' of
                   Inl e \<Rightarrow> (Some e, self, [(gid, kw')])
                 | Inr data \<Rightarrow>
                     (case store guilds self data of
                        (r, self') \<Rightarrow> (r, self', [(gid, kw')])))
           else (None, self, [])))"

subsection \<open>Example data\<close>

text \<open>
  A guild with two channels and two custom emojis, a screen that refers to it, and
  payloads and transports for the concrete evaluations below.
\<close>

definition guild0 :: Guild where
  "guild0 = \<lparr>Guild.id = 7,
             channels = [\<lparr>Snowflake.id = 1\<rparr>, \<lparr>Snowflake.id = 2\<rparr>],
             emojis = [\<lparr>Emoji.id = 0, name = ''zero''\<rparr>, \<lparr>Emoji.id = 5, name = ''loudspeaker''\<rparr>],
             features = {''COMMUNITY'', ''WELCOME_SCREEN_ENABLED''}\<rparr>"

definition guilds0 :: guild_store where
  "guilds0 = (\<lambda>a. guild0)"

definition screen0 :: WelcomeScreen where
  "screen0 = \<lparr>guild = 0, WelcomeScreen.description = Some ''old'', welcome_channels = []\<rparr>"

definition payload_custom :: WelcomeScreenChannelPayload where
  "payload_custom = \<lparr>channel_id = Val 1, WelcomeScreenChannelPayload.description = Val ''rules'',
                     emoji_id = Val 5, emoji_name = Val ''loudspeaker''\<rparr>"

definition payload_unicode :: WelcomeScreenChannelPayload where
  "payload_unicode = \<lparr>channel_id = Val 2, WelcomeScreenChannelPayload.description = Val ''news'',
                      emoji_id = Null, emoji_name = Val ''!''\<rparr>"

definition payload_zero :: WelcomeScreenChannelPayload where
  "payload_zero = \<lparr>channel_id = Val 1, WelcomeScreenChannelPayload.description = Val ''rules'',
                   emoji_id = Val 0, emoji_name = Val ''n''\<rparr>"

definition payload_null_emoji :: WelcomeScreenChannelPayload where
  "payload_null_emoji = \<lparr>channel_id = Val 1, WelcomeScreenChannelPayload.description = Val ''rules'',
                         emoji_id = Missing, emoji_name = Null\<rparr>"

definition payload_no_emoji_keys :: WelcomeScreenChannelPayload where
  "payload_no_emoji_keys = \<lparr>channel_id = Val 1, WelcomeScreenChannelPayload.description = Val ''rules'',
                            emoji_id = Missing, emoji_name = Missing\<rparr>"

definition payload_gone :: WelcomeScreenChannelPayload where
  "payload_gone = \<lparr>channel_id = Val 99, WelcomeScreenChannelPayload.description = Val ''deleted'',
                   emoji_id = Null, emoji_name = Null\<rparr>"

definition entry_gone :: WelcomeChannel where
  "entry_gone = \<lparr>channel = None, WelcomeChannel.description = Some ''deleted'', emoji = EmojiNone\<rparr>"

definition entry_rules :: WelcomeChannel where
  "entry_rules = \<lparr>channel = Some \<lparr>Snowflake.id = 1\<rparr>, WelcomeChannel.description = Some ''rules'',
                  emoji = EmojiStr ''!''\<rparr>"

definition screen_payload :: WelcomeScreenPayload where
  "screen_payload = \<lparr>WelcomeScreenPayload.description = Val ''Welcome'',
                     welcome_channels = Val [payload_custom, payload_unicode]\<rparr>"

definition response_plain :: WelcomeScreenPayload where
  "response_plain = \<lparr>WelcomeScreenPayload.description = Val ''new'', welcome_channels = Missing\<rparr>"

definition http_ok :: transport where
  "http_ok gid kw = Inr response_plain"

definition http_forbidden :: transport where
  "http_forbidden gid kw = Inl Forbidden"

definition screen1 :: WelcomeScreen where
  "screen1 = \<lparr>guild = 0, WelcomeScreen.description = Some ''old'', welcome_channels = [entry_rules]\<rparr>"

definition screen_payload_bad_element :: WelcomeScreenPayload where
  "screen_payload_bad_element = \<lparr>WelcomeScreenPayload.description = Val ''new'',
                                 welcome_channels = Val [payload_custom, payload_no_emoji_keys]\<rparr>"

definition screen_payload_null_list :: WelcomeScreenPayload where
  "screen_payload_null_list = \<lparr>WelcomeScreenPayload.description = Val ''new'', welcome_channels = Null\<rparr>"

definition screen_payload_no_description :: WelcomeScreenPayload where
  "screen_payload_no_description = \<lparr>WelcomeScreenPayload.description = Missing,
                                    welcome_channels = Val [payload_custom]\<rparr>"

section \<open>Properties\<close>

subsection \<open>Auxiliary facts\<close>

lemma subscript_present: "f \<noteq> Missing \<Longrightarrow> \<exists>v. subscript f = Inr v \<and> as_field v = f"
  by (cases f) auto

lemma get_channel_id: "get_channel g (Some c) = Some ch \<Longrightarrow> Snowflake.id ch = c"
  by (auto simp: find_Some_iff)

lemma get_id: "get es i = Some e \<Longrightarrow> Emoji.id e = i"
  by (auto simp: get_def find_Some_iff)

lemma from_dict_present:
  assumes "WelcomeScreenChannelPayload.description p \<noteq> Missing" and "emoji_name p \<noteq> Missing"
  shows "\<exists>wc. from_dict p g = Inr wc"
proof -
  obtain d where "subscript (WelcomeScreenChannelPayload.description p) = Inr d"
    using subscript_present[OF assms(1)] by blast
  moreover obtain n where "subscript (emoji_name p) = Inr n"
    using subscript_present[OF assms(2)] by blast
  ultimately show ?thesis by (simp add: from_dict_def)
qed

lemma from_dict_all_map:
  "from_dict_all g wcs = Inr cs \<Longrightarrow> map Inr cs = map (\<lambda>wc. from_dict wc g) wcs"
proof (induction wcs arbitrary: cs)
  case Nil
  then show ?case by simp
next
  case (Cons wc rest)
  from Cons.prems obtain c cs' where c: "from_dict wc g = Inr c"
    and r: "from_dict_all g rest = Inr cs'" and cs: "cs = c # cs'"
    by (auto split: sum.splits)
  from Cons.IH[OF r] show ?case using c cs by simp
qed

lemma from_dict_all_total:
  "\<forall>wc\<in>set wcs. \<exists>c. from_dict wc g = Inr c \<Longrightarrow> \<exists>cs. from_dict_all g wcs = Inr cs"
  by (induction wcs) auto

subsection \<open>WelcomeChannel: hydration and serialisation\<close>

text \<open>
  C1, as the code has it. Let \<open>p\<close> be a payload with the \<open>description\<close> and
  \<open>emoji_name\<close> keys present, whose \<open>channel_id\<close> resolves in the guild and whose
  \<open>emoji_id\<close>, when it is a non-zero integer, is the id of an emoji of the guild.
  Then \<open>to_dict\<close> of \<open>_from_dict\<close> of \<open>p\<close> returns a payload with the
  \<open>channel_id\<close> and the \<open>description\<close> of \<open>p\<close>, and with the emoji as an id and
  a name (the id of \<open>p\<close>, the name the guild's emoji carries) when \<open>emoji_id\<close> is a
  non-zero integer, and as a name only (\<open>emoji_id\<close> null, \<open>emoji_name\<close> as in
  \<open>p\<close>) otherwise. The id \<open>0\<close> is on the name-only side: \<open>if _emoji_id:\<close> is false
  for it.
\<close>

theorem round_trip_payload:
  assumes "channel_id p = Val c"
    and "get_channel g (Some c) \<noteq> None"
    and "WelcomeScreenChannelPayload.description p \<noteq> Missing"
    and "emoji_name p \<noteq> Missing"
    and "\<forall>i. emoji_id p = Val i \<and> i \<noteq> 0 \<longrightarrow> get (emojis g) i \<noteq> None"
  shows "\<exists>q. round_trip p g = Inr q
           \<and> channel_id q = channel_id p
           \<and> WelcomeScreenChannelPayload.description q = WelcomeScreenChannelPayload.description p
           \<and> (case emoji_id p of
                 Val i \<Rightarrow>
                   if i \<noteq> 0
                   then emoji_id q = Val i
                        \<and> (\<exists>e. get (emojis g) i = Some e \<and> emoji_name q = Val (Emoji.name e))
                   else emoji_id q = Null \<and> emoji_name q = emoji_name p
               | _ \<Rightarrow> emoji_id q = Null \<and> emoji_name q = emoji_name p)"
proof -
  obtain ch where ch: "get_channel g (Some c) = Some ch" using assms(2) by auto
  then have chid: "Snowflake.id ch = c" by (rule get_channel_id)
  obtain d where d: "subscript (WelcomeScreenChannelPayload.description p) = Inr d"
    and dd: "as_field d = WelcomeScreenChannelPayload.description p"
    using subscript_present[OF assms(3)] by blast
  obtain n where n: "subscript (emoji_name p) = Inr n" and nn: "as_field n = emoji_name p"
    using subscript_present[OF assms(4)] by blast
  show ?thesis
  proof (cases "emoji_id p")
    case Missing
    then show ?thesis using assms(1) ch chid d dd n nn
      by (cases n) (simp_all add: round_trip_def from_dict_def to_dict_def resolve_emoji_def)
  next
    case Null
    then show ?thesis using assms(1) ch chid d dd n nn
      by (cases n) (simp_all add: round_trip_def from_dict_def to_dict_def resolve_emoji_def)
  next
    case (Val i)
    show ?thesis
    proof (cases "i = 0")
      case True
      then show ?thesis using Val assms(1) ch chid d dd n nn
        by (cases n) (simp_all add: round_trip_def from_dict_def to_dict_def resolve_emoji_def)
    next
      case False
      then obtain e where e: "get (emojis g) i = Some e" using assms(5) Val by auto
      then have "Emoji.id e = i" by (rule get_id)
      then show ?thesis using False Val e assms(1) ch chid d dd n
        by (simp add: round_trip_def from_dict_def to_dict_def resolve_emoji_def)
    qed
  qed
qed

text \<open>
  The round trip on the custom emoji \<open>5\<close> of the example guild: the id comes back, with
  the name the guild's emoji carries.
\<close>

theorem round_trip_payload_witness:
  "\<exists>q. round_trip payload_custom guild0 = Inr q \<and> channel_id q = Val 1
       \<and> emoji_id q = Val 5 \<and> emoji_name q = Val ''loudspeaker''"
proof -
  have h1: "channel_id payload_custom = Val 1" by (simp add: payload_custom_def)
  have h2: "get_channel guild0 (Some 1) \<noteq> None" by (simp add: guild0_def)
  have h3: "WelcomeScreenChannelPayload.description payload_custom \<noteq> Missing"
    by (simp add: payload_custom_def)
  have h4: "emoji_name payload_custom \<noteq> Missing" by (simp add: payload_custom_def)
  have h5: "\<forall>i. emoji_id payload_custom = Val i \<and> i \<noteq> 0 \<longrightarrow> get (emojis guild0) i \<noteq> None"
    by (simp add: payload_custom_def guild0_def get_def)
  have e: "get (emojis guild0) 5 = Some \<lparr>Emoji.id = 5, name = ''loudspeaker''\<rparr>"
    by (simp add: guild0_def get_def)
  from round_trip_payload[OF h1 h2 h3 h4 h5] show ?thesis
    by (auto simp add: payload_custom_def e)
qed

text \<open>
  C1 as stated fails for the emoji id \<open>0\<close>: the channel of the payload resolves and the
  guild has an emoji with the id \<open>0\<close>, yet the payload that comes back has a null
  \<open>emoji_id\<close> and the literal name.
\<close>

theorem round_trip_zero_id_counterexample:
  "get_channel guild0 (Some 1) = Some \<lparr>Snowflake.id = 1\<rparr>
   \<and> emoji_id payload_zero = Val 0
   \<and> get (emojis guild0) 0 = Some \<lparr>Emoji.id = 0, name = ''zero''\<rparr>
   \<and> round_trip payload_zero guild0
       = Inr \<lparr>channel_id = Val 1, WelcomeScreenChannelPayload.description = Val ''rules'',
              emoji_id = Null, emoji_name = Val ''n''\<rparr>"
  by (simp add: round_trip_def from_dict_def to_dict_def resolve_emoji_def get_def
      guild0_def payload_zero_def)

text \<open>
  C2, as the code has it. For a payload whose \<open>emoji_id\<close> is a non-zero integer \<open>i\<close>
  (and whose \<open>description\<close> and \<open>emoji_name\<close> keys are present, both being read
  before the branch), \<open>_from_dict\<close> returns an entry whose emoji is the first emoji of
  the guild with the id \<open>i\<close>, or absent when the guild has none; it is never the string
  of the \<open>emoji_name\<close> field.
\<close>

theorem from_dict_custom_emoji:
  assumes "emoji_id p = Val i"
    and "i \<noteq> 0"
    and "WelcomeScreenChannelPayload.description p \<noteq> Missing"
    and "emoji_name p \<noteq> Missing"
  shows "\<exists>wc. from_dict p g = Inr wc
           \<and> emoji wc = (case find (\<lambda>e. Emoji.id e = i) (emojis g) of
                           None \<Rightarrow> EmojiNone
                         | Some e \<Rightarrow> EmojiTag e)
           \<and> (\<forall>s. emoji wc \<noteq> EmojiStr s)"
proof -
  obtain d where d: "subscript (WelcomeScreenChannelPayload.description p) = Inr d"
    using subscript_present[OF assms(3)] by blast
  obtain n where n: "subscript (emoji_name p) = Inr n"
    using subscript_present[OF assms(4)] by blast
  show ?thesis using assms(1,2) d n
    by (simp add: from_dict_def resolve_emoji_def get_def split: option.splits)
qed

theorem from_dict_custom_emoji_witness:
  "\<exists>wc. from_dict payload_custom guild0 = Inr wc
        \<and> emoji wc = EmojiTag \<lparr>Emoji.id = 5, name = ''loudspeaker''\<rparr>"
proof -
  have h1: "emoji_id payload_custom = Val 5" by (simp add: payload_custom_def)
  have h2: "(5::int) \<noteq> 0" by simp
  have h3: "WelcomeScreenChannelPayload.description payload_custom \<noteq> Missing"
    by (simp add: payload_custom_def)
  have h4: "emoji_name payload_custom \<noteq> Missing" by (simp add: payload_custom_def)
  have e: "find (\<lambda>e. Emoji.id e = 5) (emojis guild0) = Some \<lparr>Emoji.id = 5, name = ''loudspeaker''\<rparr>"
    by (simp add: guild0_def)
  from from_dict_custom_emoji[OF h1 h2 h3 h4, of guild0] show ?thesis
    by (auto simp add: e)
qed

text \<open>
  C2 as stated fails for the emoji id \<open>0\<close>: the field is present and not null and the
  guild has an emoji with that id, yet the entry's emoji is the string of \<open>emoji_name\<close>.
\<close>

theorem from_dict_zero_id_counterexample:
  "emoji_id payload_zero = Val 0
   \<and> emoji_name payload_zero = Val ''n''
   \<and> get (emojis guild0) 0 = Some \<lparr>Emoji.id = 0, name = ''zero''\<rparr>
   \<and> from_dict payload_zero guild0
       = Inr \<lparr>channel = Some \<lparr>Snowflake.id = 1\<rparr>, WelcomeChannel.description = Some ''rules'',
              emoji = EmojiStr ''n''\<rparr>"
  by (simp add: from_dict_def resolve_emoji_def get_def guild0_def payload_zero_def)

text \<open>
  C6, as the code has it. For a payload whose \<open>emoji_id\<close> key is missing or null and
  whose \<open>emoji_name\<close> key is present with the value null (the \<open>description\<close> key being
  present), \<open>_from_dict\<close> returns an entry whose emoji is absent. The \<open>emoji_name\<close>
  key itself is required: \<open>data['emoji_name']\<close> raises \<open>KeyError\<close> on a payload that
  has a description and no such key.
\<close>

theorem from_dict_no_emoji:
  assumes "WelcomeScreenChannelPayload.description p \<noteq> Missing"
  shows "((emoji_id p = Missing \<or> emoji_id p = Null) \<and> emoji_name p = Null
            \<longrightarrow> (\<exists>wc. from_dict p g = Inr wc \<and> emoji wc = EmojiNone))
       \<and> (emoji_name p = Missing \<longrightarrow> from_dict p g = Inl KeyError)"
proof -
  obtain d where d: "subscript (WelcomeScreenChannelPayload.description p) = Inr d"
    using subscript_present[OF assms] by blast
  then show ?thesis by (auto simp: from_dict_def resolve_emoji_def)
qed

theorem from_dict_no_emoji_witness:
  "\<exists>wc. from_dict payload_null_emoji guild0 = Inr wc \<and> emoji wc = EmojiNone"
proof -
  have h: "WelcomeScreenChannelPayload.description payload_null_emoji \<noteq> Missing"
    by (simp add: payload_null_emoji_def)
  from from_dict_no_emoji[OF h, of guild0] show ?thesis
    by (simp add: payload_null_emoji_def)
qed

text \<open>
  C6 as stated fails on a payload that leaves both emoji keys out: hydration raises
  \<open>KeyError\<close>.
\<close>

theorem from_dict_missing_name_counterexample:
  "emoji_id payload_no_emoji_keys = Missing
   \<and> emoji_name payload_no_emoji_keys = Missing
   \<and> from_dict payload_no_emoji_keys guild0 = Inl KeyError"
  by (simp add: from_dict_def payload_no_emoji_keys_def)

text \<open>
  C7. Serialisation is not total: hydrating a payload whose \<open>channel_id\<close> does not
  resolve in the guild succeeds and gives an entry with no channel, and \<open>to_dict\<close> of
  that entry raises \<open>AttributeError\<close> instead of returning the four wire fields.
\<close>

theorem to_dict_unresolved_channel:
  "from_dict payload_gone guild0 = Inr entry_gone \<and> to_dict entry_gone = Inl AttributeError"
  by (simp add: from_dict_def to_dict_def resolve_emoji_def guild0_def payload_gone_def
      entry_gone_def)

subsection \<open>WelcomeScreen: hydration\<close>

text \<open>
  C8, as the code has it. For a payload with the \<open>description\<close> key present, the
  \<open>welcome_channels\<close> key missing or holding a list (not null), and every element of
  the list with its \<open>description\<close> and \<open>emoji_name\<close> keys, \<open>_store\<close> returns,
  sets \<open>description\<close> to the payload's description, and sets \<open>welcome_channels\<close>
  to a list as long as the payload's, whose \<open>i\<close>-th element is \<open>_from_dict\<close> of the
  payload's \<open>i\<close>-th element with the screen's guild; when the key is missing the list
  is empty.
\<close>

theorem store_hydrates:
  assumes "WelcomeScreenPayload.description data \<noteq> Missing"
    and "WelcomeScreenPayload.welcome_channels data \<noteq> Null"
    and "wcs = (case WelcomeScreenPayload.welcome_channels data of Val xs \<Rightarrow> xs | _ \<Rightarrow> [])"
    and "\<forall>wc\<in>set wcs. WelcomeScreenChannelPayload.description wc \<noteq> Missing \<and> emoji_name wc \<noteq> Missing"
  shows "\<exists>self'. store guilds self data = (None, self')
           \<and> as_field (WelcomeScreen.description self') = WelcomeScreenPayload.description data
           \<and> length (WelcomeScreen.welcome_channels self') = length wcs
           \<and> (\<forall>i<length wcs. from_dict (wcs ! i) (guilds (guild self))
                                = Inr (WelcomeScreen.welcome_channels self' ! i))
           \<and> (WelcomeScreenPayload.welcome_channels data = Missing
                \<longrightarrow> WelcomeScreen.welcome_channels self' = [])"
proof -
  obtain d where d: "subscript (WelcomeScreenPayload.description data) = Inr d"
    and dd: "as_field d = WelcomeScreenPayload.description data"
    using subscript_present[OF assms(1)] by blast
  have w: "get_welcome_channels (WelcomeScreenPayload.welcome_channels data) = Inr wcs"
    using assms(2,3) by (cases "WelcomeScreenPayload.welcome_channels data") auto
  have "\<forall>wc\<in>set wcs. \<exists>c. from_dict wc (guilds (guild self)) = Inr c"
    using assms(4) from_dict_present by blast
  then obtain cs where cs: "from_dict_all (guilds (guild self)) wcs = Inr cs"
    using from_dict_all_total by blast
  then have m: "map Inr cs = map (\<lambda>wc. from_dict wc (guilds (guild self))) wcs"
    by (rule from_dict_all_map)
  then have len: "length cs = length wcs" by (metis length_map)
  have nth: "\<forall>i<length wcs. from_dict (wcs ! i) (guilds (guild self)) = Inr (cs ! i)"
  proof (intro allI impI)
    fix i assume i: "i < length wcs"
    then have "map Inr cs ! i = map (\<lambda>wc. from_dict wc (guilds (guild self))) wcs ! i"
      using m by simp
    then show "from_dict (wcs ! i) (guilds (guild self)) = Inr (cs ! i)"
      using i len by simp
  qed
  have st: "store guilds self data
      = (None, self\<lparr>WelcomeScreen.description := d, WelcomeScreen.welcome_channels := cs\<rparr>)"
    using d w cs by (simp add: store_def)
  have "WelcomeScreenPayload.welcome_channels data = Missing \<longrightarrow> cs = []"
    using assms(3) len by auto
  then show ?thesis using st dd len nth by simp
qed

text \<open>
  Hydrating the example payload of two channels: the custom emoji first, the literal
  one second, as in the payload.
\<close>

theorem store_hydrates_witness:
  "\<exists>self'. store guilds0 screen0 screen_payload = (None, self')
      \<and> WelcomeScreen.description self' = Some ''Welcome''
      \<and> length (WelcomeScreen.welcome_channels self') = 2
      \<and> from_dict payload_custom guild0 = Inr (WelcomeScreen.welcome_channels self' ! 0)
      \<and> from_dict payload_unicode guild0 = Inr (WelcomeScreen.welcome_channels self' ! 1)"
proof -
  have h1: "WelcomeScreenPayload.description screen_payload \<noteq> Missing"
    by (simp add: screen_payload_def)
  have h2: "WelcomeScreenPayload.welcome_channels screen_payload \<noteq> Null"
    by (simp add: screen_payload_def)
  have h3: "[payload_custom, payload_unicode]
      = (case WelcomeScreenPayload.welcome_channels screen_payload of Val xs \<Rightarrow> xs | _ \<Rightarrow> [])"
    by (simp add: screen_payload_def)
  have h4: "\<forall>wc\<in>set [payload_custom, payload_unicode].
      WelcomeScreenChannelPayload.description wc \<noteq> Missing \<and> emoji_name wc \<noteq> Missing"
    by (simp add: payload_custom_def payload_unicode_def)
  from store_hydrates[OF h1 h2 h3 h4, of guilds0 screen0]
  obtain s where s: "store guilds0 screen0 screen_payload = (None, s)"
    and d: "as_field (WelcomeScreen.description s) = WelcomeScreenPayload.description screen_payload"
    and l: "length (WelcomeScreen.welcome_channels s) = length [payload_custom, payload_unicode]"
    and n: "\<forall>i<length [payload_custom, payload_unicode].
              from_dict ([payload_custom, payload_unicode] ! i) (guilds0 (guild screen0))
                = Inr (WelcomeScreen.welcome_channels s ! i)"
    by blast
  have d': "WelcomeScreen.description s = Some ''Welcome''"
    using d by (cases "WelcomeScreen.description s") (simp_all add: screen_payload_def)
  have "(0::nat) < length [payload_custom, payload_unicode]" by simp
  then have "from_dict ([payload_custom, payload_unicode] ! 0) (guilds0 (guild screen0))
      = Inr (WelcomeScreen.welcome_channels s ! 0)" using n by blast
  then have n0: "from_dict payload_custom guild0 = Inr (WelcomeScreen.welcome_channels s ! 0)"
    by (simp add: guilds0_def)
  have "(1::nat) < length [payload_custom, payload_unicode]" by simp
  then have "from_dict ([payload_custom, payload_unicode] ! 1) (guilds0 (guild screen0))
      = Inr (WelcomeScreen.welcome_channels s ! 1)" using n by blast
  then have n1: "from_dict payload_unicode guild0 = Inr (WelcomeScreen.welcome_channels s ! 1)"
    by (simp add: guilds0_def)
  show ?thesis using s d' l n0 n1 by simp
qed

text \<open>
  C8 as stated fails on other payloads, where \<open>_store\<close> raises instead of setting both
  fields. With an element that has no \<open>emoji_name\<close> key the list comprehension raises
  \<open>KeyError\<close>: the description is already the new one and \<open>welcome_channels\<close> is
  still the old list, not the hydration of the payload's two elements. With
  \<open>welcome_channels\<close> null the iteration raises \<open>TypeError\<close> in the same state, and
  without a \<open>description\<close> key \<open>_store\<close> raises \<open>KeyError\<close> before it sets
  anything.
\<close>

theorem store_raises_counterexample:
  "store guilds0 screen1 screen_payload_bad_element
     = (Some KeyError,
        \<lparr>guild = 0, WelcomeScreen.description = Some ''new'', welcome_channels = [entry_rules]\<rparr>)
   \<and> store guilds0 screen1 screen_payload_null_list
     = (Some TypeError,
        \<lparr>guild = 0, WelcomeScreen.description = Some ''new'', welcome_channels = [entry_rules]\<rparr>)
   \<and> store guilds0 screen1 screen_payload_no_description = (Some KeyError, screen1)"
  by (simp add: store_def from_dict_def resolve_emoji_def get_def guilds0_def guild0_def
      screen1_def screen_payload_bad_element_def screen_payload_null_list_def
      screen_payload_no_description_def payload_custom_def payload_no_emoji_keys_def)

subsection \<open>WelcomeScreen: enabled\<close>

text \<open>
  C9. \<open>enabled\<close> is true exactly when the flag \<open>WELCOME_SCREEN_ENABLED\<close> is in the
  feature set the guild has at the moment of the read: the value is computed from the
  guild object the screen refers to, so replacing that guild's feature set by \<open>F\<close>,
  with the screen itself untouched, makes the next read return whether the flag is
  in \<open>F\<close>.
\<close>

theorem enabled_live:
  "enabled guilds self = (''WELCOME_SCREEN_ENABLED'' \<in> features (guilds (guild self))) \<and>
   enabled (guilds(guild self := (guilds (guild self))\<lparr>features := F\<rparr>)) self
     = (''WELCOME_SCREEN_ENABLED'' \<in> F)"
  by (simp add: enabled_def)

text \<open>
  The example guild has the flag; once its feature set is \<open>{COMMUNITY}\<close> the same
  screen reads as disabled.
\<close>

theorem enabled_live_witness:
  "enabled guilds0 screen0
   \<and> \<not> enabled (guilds0(guild screen0 := (guilds0 (guild screen0))\<lparr>features := {''COMMUNITY''}\<rparr>)) screen0"
  using enabled_live[of guilds0 screen0 "{''COMMUNITY''}"]
  by (simp add: guilds0_def guild0_def)

subsection \<open>WelcomeScreen: edit\<close>

text \<open>
  C3, as the code has it. \<open>edit\<close> called with no keyword argument at all sends no
  request, raises nothing and leaves the object as it was. The test in the code is
  \<open>if kwargs:\<close>, which looks at whether the dictionary is empty and not at which keys
  it holds.
\<close>

theorem edit_no_kwargs:
  "edit http guilds self [] = (None, self, [])"
  by (simp add: edit_def prepare_def)

text \<open>
  C3 as stated fails for a call whose only keyword is none of \<open>description\<close>,
  \<open>welcome_channels\<close> and \<open>enabled\<close>: the request is sent with that keyword, and the
  object is hydrated again from the response.
\<close>

theorem edit_unrecognised_counterexample:
  "edit http_ok guilds0 screen0 [(''colour'', PyInt 1)]
     = (None,
        \<lparr>guild = 0, WelcomeScreen.description = Some ''new'', welcome_channels = []\<rparr>,
        [(7, [(''colour'', PyInt 1)])])
   \<and> WelcomeScreen.description screen0 = Some ''old''"
  by (simp add: edit_def prepare_def store_def http_ok_def response_plain_def guilds0_def
      guild0_def screen0_def)

text \<open>
  C4. A list that holds an element which is not a \<open>WelcomeChannel\<close> is not always
  rejected with \<open>InvalidArgument\<close>: the loop serialises each entry before it looks at
  the next element, and \<open>to_dict\<close> raises \<open>AttributeError\<close> on an entry without a
  channel. For the entry that \<open>_from_dict\<close> returns for a deleted channel, followed
  by an integer, \<open>edit\<close> raises \<open>AttributeError\<close>; no request is sent and the object
  is as it was.
\<close>

theorem edit_invalid_list_attribute_error:
  "from_dict payload_gone guild0 = Inr entry_gone
   \<and> \<not> is_WelcomeChannel (PyInt 42)
   \<and> edit http_ok guilds0 screen0
        [(''welcome_channels'', PyList [PyWelcomeChannel entry_gone, PyInt 42])]
      = (Some AttributeError, screen0, [])"
  by (simp add: edit_def prepare_def to_dict_def from_dict_def resolve_emoji_def
      guild0_def payload_gone_def entry_gone_def)

text \<open>
  C5. Let \<open>kw'\<close> be the keywords \<open>edit\<close> has after the \<open>welcome_channels\<close> block.
  When that block raised, or left no keyword, nothing is sent and the object is as it
  was. Otherwise one request is sent for the screen's guild with \<open>kw'\<close>: when it
  fails with \<open>e\<close>, \<open>edit\<close> raises \<open>e\<close> and the object is as it was; when it
  returns a payload, the outcome and the object are those of \<open>_store\<close> on that payload.
\<close>

theorem edit_atomic:
  "(\<forall>e. prepare kw = Inl e \<longrightarrow> edit http guilds self kw = (Some e, self, []))
   \<and> (prepare kw = Inr [] \<longrightarrow> edit http guilds self kw = (None, self, []))
   \<and> (\<forall>kw' e. prepare kw = Inr kw' \<and> kw' \<noteq> []
                \<and> http (Guild.id (guilds (guild self))) kw' = Inl e
         \<longrightarrow> edit http guilds self kw
               = (Some e, self, [(Guild.id (guilds (guild self)), kw')]))
   \<and> (\<forall>kw' data. prepare kw = Inr kw' \<and> kw' \<noteq> []
                \<and> http (Guild.id (guilds (guild self))) kw' = Inr data
         \<longrightarrow> edit http guilds self kw
               = (fst (store guilds self data), snd (store guilds self data),
                  [(Guild.id (guilds (guild self)), kw')]))"
  by (simp add: edit_def split: prod.splits)

text \<open>
  A change of description that the server refuses: \<open>Forbidden\<close> reaches the caller and
  the screen keeps its description. The same change accepted: the screen has the
  description of the response, not the one that was asked for.
\<close>

theorem edit_atomic_witness:
  "edit http_forbidden guilds0 screen0 [(''description'', PyStr ''x'')]
     = (Some Forbidden, screen0, [(7, [(''description'', PyStr ''x'')])])
   \<and> edit http_ok guilds0 screen0 [(''description'', PyStr ''x'')]
     = (None,
        \<lparr>guild = 0, WelcomeScreen.description = Some ''new'', welcome_channels = []\<rparr>,
        [(7, [(''description'', PyStr ''x'')])])"
proof -
  have p: "prepare [(''description'', PyStr ''x'')] = Inr [(''description'', PyStr ''x'')]"
    by (simp add: prepare_def)
  have ne: "[(''description'', PyStr ''x'')] \<noteq> ([] :: kwargs)" by simp
  have gid: "Guild.id (guilds0 (guild screen0)) = 7" by (simp add: guilds0_def guild0_def)
  have failed: "http_forbidden (Guild.id (guilds0 (guild screen0))) [(''description'', PyStr ''x'')]
      = Inl Forbidden" by (simp add: http_forbidden_def)
  have ok: "http_ok (Guild.id (guilds0 (guild screen0))) [(''description'', PyStr ''x'')]
      = Inr response_plain" by (simp add: http_ok_def)
  have st: "store guilds0 screen0 response_plain
      = (None, \<lparr>guild = 0, WelcomeScreen.description = Some ''new'', welcome_channels = []\<rparr>)"
    by (simp add: store_def response_plain_def screen0_def)
  have a: "edit http_forbidden guilds0 screen0 [(''description'', PyStr ''x'')]
      = (Some Forbidden, screen0, [(7, [(''description'', PyStr ''x'')])])"
    using edit_atomic[of "[(''description'', PyStr ''x'')]" http_forbidden guilds0 screen0]
      p ne failed gid by simp
  have b: "edit http_ok guilds0 screen0 [(''description'', PyStr ''x'')]
      = (None,
         \<lparr>guild = 0, WelcomeScreen.description = Some ''new'', welcome_channels = []\<rparr>,
         [(7, [(''description'', PyStr ''x'')])])"
    using edit_atomic[of "[(''description'', PyStr ''x'')]" http_ok guilds0 screen0]
      p ne ok gid st by simp
  show ?thesis using a b by simp
qed

text \<open>
  C10. When the keyword \<open>welcome_channels\<close> is given as \<open>None\<close>, \<open>edit\<close> raises the
  \<open>TypeError\<close> of iterating \<open>None\<close>, not \<open>InvalidArgument\<close>; it sends no request and
  leaves the object as it was.
\<close>

theorem edit_none_welcome_channels:
  assumes "map_of kw ''welcome_channels'' = Some PyNone"
  shows "edit http guilds self kw = (Some TypeError, self, [])"
  using assms by (simp add: edit_def prepare_def)

theorem edit_none_welcome_channels_witness:
  "edit http_ok guilds0 screen0 [(''welcome_channels'', PyNone)] = (Some TypeError, screen0, [])"
proof -
  have h: "map_of [(''welcome_channels'', PyNone)] ''welcome_channels'' = Some PyNone" by simp
  from edit_none_welcome_channels[OF h] show ?thesis .
qed

end
